theory Spec2Isabelle
  imports Main "HOL-Library.Word"
begin

unbundle bit_operations_syntax

section \<open>cTCP (lab 1-2): a shallow embedding of ctcp.c\<close>

text \<open>
  The development follows \<^verbatim>\<open>src/lab_1-2/ctcp.c\<close> function by function.
  C integers are words of their width (\<^verbatim>\<open>int\<close> is 32 bits, \<^verbatim>\<open>short\<close> 16 bits,
  \<^verbatim>\<open>long\<close> 64 bits); signed comparisons read them with \<^const>\<open>sint\<close>, and signed
  overflow wraps as on two's-complement hardware. Every function runs as one atomic step,
  so locking and unlocking a mutex has no effect and is left out; the calls that
  \<^verbatim>\<open>ctcp_init\<close> makes on objects that are not mutexes are kept.
\<close>

subsection \<open>Declarations that ctcp.c takes from its headers\<close>

type_synonym byte = "8 word"
type_synonym addr = nat

text \<open>
  \<^verbatim>\<open>ctcp_segment_t\<close> is declared in \<^verbatim>\<open>ctcp_sys.h\<close>; the fields are the ones
  ctcp.c assigns. \<^verbatim>\<open>calloc\<close> gives the all-zero segment.
\<close>

record ctcp_segment =
  seqno :: "32 word"
  ackno :: "32 word"
  len :: "16 word"
  flags :: "32 word"
  window :: "16 word"
  cksum :: "16 word"
  data :: "byte list"

definition zero_segment :: ctcp_segment where
  "zero_segment = \<lparr>seqno = 0, ackno = 0, len = 0, flags = 0, window = 0, cksum = 0, data = []\<rparr>"

text \<open>
  \<^verbatim>\<open>ctcp_config_t\<close> is declared in \<^verbatim>\<open>ctcp.h\<close>; ctcp.c reads two of its fields,
  both \<^verbatim>\<open>uint16_t\<close>.
\<close>

record ctcp_config =
  recv_window :: "16 word"
  send_window :: "16 word"

text \<open>
  What ctcp.c uses and no file of the repository defines is a parameter of the model:
  \<^verbatim>\<open>sizeof(ctcp_segment_t)\<close>, the flag macros \<^verbatim>\<open>ACK\<close> and \<^verbatim>\<open>FIN\<close>, the byte
  order of the host (for \<^verbatim>\<open>htonl\<close>, \<^verbatim>\<open>htons\<close>, \<^verbatim>\<open>ntohs\<close>) and the function
  \<^verbatim>\<open>cksum(const void *, uint16_t)\<close> of \<^verbatim>\<open>ctcp_utils.h\<close>. \<^verbatim>\<open>cksum\<close> is handed the
  address of a segment block and a length: \<open>cksum_of\<close> takes the header fields held in
  the block, the bytes it reads behind the block when the length exceeds the block, and
  the length.
\<close>

record sys =
  seg_hdr_size :: nat
  ACK :: "32 word"
  FIN :: "32 word"
  big_endian :: bool
  cksum_of :: "ctcp_segment \<Rightarrow> byte list \<Rightarrow> 16 word \<Rightarrow> 16 word"

definition bswap16 :: "16 word \<Rightarrow> 16 word" where
  "bswap16 x = push_bit 8 (take_bit 8 x) OR drop_bit 8 x"

definition bswap32 :: "32 word \<Rightarrow> 32 word" where
  "bswap32 x =
     push_bit 24 (take_bit 8 x) OR push_bit 16 (take_bit 8 (drop_bit 8 x)) OR
     push_bit 8 (take_bit 8 (drop_bit 16 x)) OR drop_bit 24 x"

definition htons :: "sys \<Rightarrow> 16 word \<Rightarrow> 16 word" where
  "htons y x = (if big_endian y then x else bswap16 x)"

definition ntohs :: "sys \<Rightarrow> 16 word \<Rightarrow> 16 word" where
  "ntohs y x = (if big_endian y then x else bswap16 x)"

definition htonl :: "sys \<Rightarrow> 32 word \<Rightarrow> 32 word" where
  "htonl y x = (if big_endian y then x else bswap32 x)"

text \<open>
  Modelled from the spec: the header size and the flag bits of the wire format of
  section 6 (seqno 32, ackno 32, len 16, flags 32, window 16, checksum 16 bits: 18 bytes;
  bit 0 is ACK, bit 2 is FIN), standing in for the missing \<^verbatim>\<open>ctcp_sys.h\<close> wherever a
  concrete instance of the parameters is evaluated. The checksum of the instance is a
  plain sum of the header fields, the bytes that follow them and the length.
\<close>

definition sum_cksum :: "ctcp_segment \<Rightarrow> byte list \<Rightarrow> 16 word \<Rightarrow> 16 word" where
  "sum_cksum s bytes n =
     ucast (seqno s) + ucast (ackno s) + len s + ucast (flags s) + window s + cksum s +
     sum_list (map ucast bytes) + n"

definition spec_sys :: sys where
  "spec_sys = \<lparr>seg_hdr_size = 18, ACK = 1, FIN = 4, big_endian = False, cksum_of = sum_cksum\<rparr>"

subsection \<open>The connection state\<close>

definition INITIAL_SEQ_NO :: "32 word" where
  "INITIAL_SEQ_NO = 1"

record timestamped_segment =
  time_when_sent :: "64 word"
  segment :: ctcp_segment

text \<open>
  A \<^verbatim>\<open>ctcp_state **\<close> points either at the global \<^verbatim>\<open>state_list\<close> or at the
  \<^verbatim>\<open>next\<close> field of another state.
\<close>

datatype link = State_list | Next_of addr

text \<open>
  The three \<^verbatim>\<open>linked_list_t *\<close> fields are owned by the state alone and are never
  reassigned after \<^verbatim>\<open>ctcp_init\<close>, so each is held by value: head first, tail last.
\<close>

record ctcp_state =
  "next" :: "addr option"
  prev :: link
  conn :: nat
  config :: ctcp_config
  next_seq_no :: "32 word"
  last_ack_sent :: "32 word"
  last_ack_received :: "32 word"
  output_thread :: nat
  is_output_thread_running :: "16 word"
  outbound_segments_list :: "timestamped_segment list"
  inflight_segments_list :: "timestamped_segment list"
  received_segments_list :: "ctcp_segment list"
  bytes_inflight :: "16 word"

subsection \<open>Building segments\<close>

text \<open>
  \<^verbatim>\<open>array_copy(to, from, n)\<close>: the loop \<^verbatim>\<open>for(i=0;i<n;i++) to[i]=from[i];\<close>.
\<close>

fun array_copy_from :: "nat \<Rightarrow> nat \<Rightarrow> byte list \<Rightarrow> byte list \<Rightarrow> byte list" where
  "array_copy_from i 0 to from = to"
| "array_copy_from i (Suc k) to from = array_copy_from (Suc i) k (to[i := from ! i]) from"

definition array_copy :: "byte list \<Rightarrow> byte list \<Rightarrow> int \<Rightarrow> byte list" where
  "array_copy to from n = array_copy_from 0 (nat n) to from"

text \<open>\<^verbatim>\<open>malloc(n)\<close>: a block of \<open>n\<close> bytes (none when \<open>n\<close> is not positive).\<close>

definition malloc_bytes :: "int \<Rightarrow> byte list" where
  "malloc_bytes n = replicate (nat n) 0"

text \<open>
  A segment is allocated with \<^verbatim>\<open>calloc(sizeof(ctcp_segment_t),1)\<close>: the block holds the
  header fields. Its \<^verbatim>\<open>data\<close> member is assigned the address of the payload, which
  \<^verbatim>\<open>malloc(bytes_read)\<close> put in a block of its own, so the payload bytes are not in the
  segment block (the address itself is not modelled).
\<close>

definition block_of :: "ctcp_segment \<Rightarrow> ctcp_segment" where
  "block_of s = s\<lparr>data := []\<rparr>"

text \<open>
  \<^verbatim>\<open>cksum(p, n)\<close> where \<open>p\<close> points at a segment block and \<open>behind\<close> is what lies in
  memory after the block: of \<open>behind\<close>, the call reads as many bytes as \<open>n\<close> exceeds the
  size of the block.
\<close>

definition cksum_call :: "sys \<Rightarrow> ctcp_segment \<Rightarrow> byte list \<Rightarrow> 16 word \<Rightarrow> 16 word" where
  "cksum_call y block behind n = cksum_of y block (take (unat n - seg_hdr_size y) behind) n"

text \<open>
  \<^verbatim>\<open>create_new_data_segment\<close>; \<open>behind\<close> is the memory behind the block that
  \<^verbatim>\<open>calloc\<close> returned for the segment, which \<^verbatim>\<open>cksum\<close> reads into because it is
  called on that block with the length \<^verbatim>\<open>sizeof(ctcp_segment_t)+bytes_read\<close>.
\<close>

definition create_new_data_segment ::
  "sys \<Rightarrow> ctcp_state \<Rightarrow> int \<Rightarrow> byte list \<Rightarrow> byte list \<Rightarrow> ctcp_segment \<times> ctcp_state" where
  "create_new_data_segment y state bytes_read buffer behind =
     (let new_segment = zero_segment;
          data' = array_copy (malloc_bytes bytes_read) buffer bytes_read;
          new_segment = new_segment\<lparr>seqno := htonl y (next_seq_no state)\<rparr>;
          state = state\<lparr>next_seq_no := next_seq_no state + word_of_int bytes_read\<rparr>;
          new_segment = new_segment\<lparr>ackno := htonl y (last_ack_sent state)\<rparr>;
          new_segment = new_segment\<lparr>len := htons y (word_of_int (int (seg_hdr_size y) + bytes_read))\<rparr>;
          new_segment = new_segment\<lparr>flags := flags new_segment OR htonl y (ACK y)\<rparr>;
          new_segment = new_segment\<lparr>window := htons y (recv_window (config state))\<rparr>;
          new_segment = new_segment\<lparr>cksum := 0\<rparr>;
          new_segment = new_segment\<lparr>data := data'\<rparr>;
          new_segment =
            new_segment\<lparr>cksum :=
              cksum_call y (block_of new_segment) behind (ntohs y (len new_segment))\<rparr>
      in (new_segment, state))"

text \<open>
  \<^verbatim>\<open>create_new_fin_segment\<close>: the length handed to \<^verbatim>\<open>cksum\<close> is the size of the block,
  so nothing behind the block is read.
\<close>

definition create_new_fin_segment :: "sys \<Rightarrow> ctcp_state \<Rightarrow> ctcp_segment \<times> ctcp_state" where
  "create_new_fin_segment y state =
     (let new_fin_segment = zero_segment;
          new_fin_segment = new_fin_segment\<lparr>seqno := htonl y (next_seq_no state)\<rparr>;
          new_fin_segment = new_fin_segment\<lparr>ackno := htonl y (last_ack_sent state)\<rparr>;
          new_fin_segment = new_fin_segment\<lparr>len := htons y (word_of_nat (seg_hdr_size y))\<rparr>;
          new_fin_segment = new_fin_segment\<lparr>flags := flags new_fin_segment OR htonl y (ACK y)\<rparr>;
          new_fin_segment = new_fin_segment\<lparr>flags := flags new_fin_segment OR htonl y (FIN y)\<rparr>;
          new_fin_segment = new_fin_segment\<lparr>window := htons y (recv_window (config state))\<rparr>;
          new_fin_segment = new_fin_segment\<lparr>cksum := 0\<rparr>;
          new_fin_segment =
            new_fin_segment\<lparr>cksum :=
              cksum_call y (block_of new_fin_segment) [] (ntohs y (len new_fin_segment))\<rparr>
      in (new_fin_segment, state))"

subsection \<open>Calls into the library, and faults\<close>

text \<open>
  The calls of ctcp.c that act outside the connection state are logged, in order:
  \<^verbatim>\<open>ll_create\<close>, \<^verbatim>\<open>pthread_create\<close> (with its return value), \<^verbatim>\<open>thread_exit\<close>
  (which ends the calling thread), \<^verbatim>\<open>conn_remove\<close>, \<^verbatim>\<open>free(state)\<close> and
  \<^verbatim>\<open>end_client\<close>. The source never calls
  \<^verbatim>\<open>conn_send\<close>, \<^verbatim>\<open>pthread_join\<close>, \<^verbatim>\<open>pthread_cancel\<close> or \<^verbatim>\<open>ll_destroy\<close>.
\<close>

datatype call =
  Ll_create
| Pthread_create int
| Thread_exit int
| Conn_remove nat
| Free_state
| End_client

text \<open>
  What the C standard and POSIX leave undefined ends the function with a fault: reading
  through a null or dangling pointer, and locking or unlocking an object that is not an
  initialised mutex.
\<close>

datatype fault = Null_dereference | Invalid_pointer | Not_a_mutex

subsection \<open>The sending task\<close>

text \<open>
  The second \<^verbatim>\<open>if\<close> of \<^verbatim>\<open>send_outbound_tail_segments\<close>. It reads
  \<^verbatim>\<open>outbound_segments_list->tail->object\<close>, a null pointer when the list is empty. The
  comparison is between an \<^verbatim>\<open>int\<close> and the \<^verbatim>\<open>uint32_t\<close> field as stored (network
  order), so it is unsigned. Its body is the bare name \<^verbatim>\<open>conn_send\<close>: nothing is
  called, and nothing is handed to the network.
\<close>

definition stop_and_wait_check :: "ctcp_state \<Rightarrow> fault + call list \<times> ctcp_state" where
  "stop_and_wait_check state =
     (case outbound_segments_list state of
        [] \<Rightarrow> Inl Null_dereference
      | x # xs \<Rightarrow>
          if seqno (segment (last (x # xs))) < last_ack_received state
          then Inr ([], state)
          else Inr ([], state))"

text \<open>
  \<^verbatim>\<open>send_outbound_tail_segments\<close>. \<^verbatim>\<open>ll_remove\<close> of the tail node drops the last
  element; the removed object is kept in a local variable only. Between locking and
  unlocking \<^verbatim>\<open>inflight_list_lock\<close> the source does nothing.
\<close>

definition send_outbound_tail_segments :: "ctcp_state \<Rightarrow> fault + call list \<times> ctcp_state" where
  "send_outbound_tail_segments state =
     (let send_window_size = send_window (config state) in
      if sint (bytes_inflight state) < sint send_window_size then
        (case outbound_segments_list state of
           [] \<Rightarrow> Inr ([Thread_exit 0], state)
         | x # xs \<Rightarrow>
             stop_and_wait_check
               (state\<lparr>outbound_segments_list := butlast (outbound_segments_list state)\<rparr>))
      else stop_and_wait_check state)"

subsection \<open>Reading application input\<close>

text \<open>
  One entry per call of \<^verbatim>\<open>conn_input\<close>: its return value and what it left in the
  buffer, the memory behind the segment block allocated in that iteration, and, should
  \<^verbatim>\<open>pthread_create\<close> be called in that iteration, its return value and the thread it
  started. Past the end of the script \<^verbatim>\<open>conn_input\<close> reports that no input is
  available (0).
\<close>

record input_step =
  input_result :: int
  input_buffer :: "byte list"
  behind_segment :: "byte list"
  create_result :: int
  created_thread :: nat

fun read_loop ::
  "sys \<Rightarrow> input_step list \<Rightarrow> 16 word \<Rightarrow> call list \<Rightarrow> ctcp_state \<Rightarrow> int \<times> call list \<times> ctcp_state"
where
  "read_loop y [] need_to_fork_thread calls state = (0, calls, state)"
| "read_loop y (r # rs) need_to_fork_thread calls state =
     (let bytes_read = input_result r in
      if 0 < bytes_read then
        (let (new_segment, state) =
               create_new_data_segment y state bytes_read (input_buffer r) (behind_segment r);
             timestamped_segment = \<lparr>time_when_sent = 0, segment = new_segment\<rparr>;
             state = state\<lparr>outbound_segments_list :=
                       timestamped_segment # outbound_segments_list state\<rparr>
         in if need_to_fork_thread \<noteq> 0 then
              (if is_output_thread_running state = 0 then
                 (let need_to_fork_thread = (word_of_int (create_result r) :: 16 word);
                      calls = calls @ [Pthread_create (create_result r)]
                  in if need_to_fork_thread = 0
                     then read_loop y rs need_to_fork_thread calls
                            (state\<lparr>output_thread := created_thread r,
                                   is_output_thread_running := 1\<rparr>)
                     else read_loop y rs need_to_fork_thread calls state)
               else read_loop y rs 0 calls state)
            else read_loop y rs need_to_fork_thread calls state)
      else (bytes_read, calls, state))"

definition ctcp_read :: "sys \<Rightarrow> input_step list \<Rightarrow> ctcp_state \<Rightarrow> call list \<times> ctcp_state" where
  "ctcp_read y script state =
     (let (bytes_read, calls, state) = read_loop y script 1 [] state in
      if bytes_read = - 1 then
        (let (new_fin_segment, state) = create_new_fin_segment y state;
             timestamped_segment = \<lparr>time_when_sent = 0, segment = new_fin_segment\<rparr>
         in (calls, state\<lparr>outbound_segments_list :=
                      timestamped_segment # outbound_segments_list state\<rparr>))
      else (calls, state))"

subsection \<open>The functions left empty in the source\<close>

definition ctcp_receive :: "ctcp_state \<Rightarrow> ctcp_segment \<Rightarrow> nat \<Rightarrow> ctcp_state" where
  "ctcp_receive state seg n = state"


subsection \<open>The list of active connection states\<close>

text \<open>
  \<^verbatim>\<open>state_list\<close>, the allocated \<^verbatim>\<open>ctcp_state\<close> objects, the log of library
  calls, each with the state on whose behalf it was made, and whether the client process
  is still running.
\<close>

record world =
  state_list :: "addr option"
  states :: "addr \<rightharpoonup> ctcp_state"
  trace :: "(addr \<times> call) list"
  client_running :: bool


text \<open>
  What ctcp.c hands to \<^verbatim>\<open>pthread_mutex_lock\<close> and \<^verbatim>\<open>pthread_mutex_unlock\<close>: the
  four mutexes of a state, and, in \<^verbatim>\<open>ctcp_init\<close>, the addresses of the three
  \<^verbatim>\<open>linked_list_t *\<close> fields (\<^verbatim>\<open>&(state->outbound_segments_list)\<close> and the two
  others). A list-pointer field is not a mutex.
\<close>

datatype lock_argument =
  Output_thread_mutex
| Outbound_list_lock
| Inflight_list_lock
| Received_list_lock
| Outbound_segments_list_field
| Inflight_segments_list_field
| Received_segments_list_field

fun is_mutex :: "lock_argument \<Rightarrow> bool" where
  "is_mutex Output_thread_mutex = True"
| "is_mutex Outbound_list_lock = True"
| "is_mutex Inflight_list_lock = True"
| "is_mutex Received_list_lock = True"
| "is_mutex Outbound_segments_list_field = False"
| "is_mutex Inflight_segments_list_field = False"
| "is_mutex Received_segments_list_field = False"

definition pthread_mutex_lock :: "lock_argument \<Rightarrow> fault + unit" where
  "pthread_mutex_lock m = (if is_mutex m then Inr () else Inl Not_a_mutex)"

definition pthread_mutex_unlock :: "lock_argument \<Rightarrow> fault + unit" where
  "pthread_mutex_unlock m = (if is_mutex m then Inr () else Inl Not_a_mutex)"

text \<open>
  One of the three blocks at the end of \<^verbatim>\<open>ctcp_init\<close>: lock the given object, assign
  the result of \<^verbatim>\<open>ll_create()\<close> to a list field, unlock the object.
\<close>

definition create_list ::
  "lock_argument \<Rightarrow> (ctcp_state \<Rightarrow> ctcp_state) \<Rightarrow> call list \<times> ctcp_state
   \<Rightarrow> fault + call list \<times> ctcp_state" where
  "create_list m assign cs =
     (case pthread_mutex_lock m of
        Inl e \<Rightarrow> Inl e
      | Inr u \<Rightarrow>
          (let cs' = (fst cs @ [Ll_create], assign (snd cs)) in
           case pthread_mutex_unlock m of
             Inl e \<Rightarrow> Inl e
           | Inr u \<Rightarrow> Inr cs'))"

definition initialise_lists :: "ctcp_state \<Rightarrow> fault + call list \<times> ctcp_state" where
  "initialise_lists state =
     (case create_list Outbound_segments_list_field
             (\<lambda>s. s\<lparr>outbound_segments_list := []\<rparr>) ([], state) of
        Inl e \<Rightarrow> Inl e
      | Inr cs \<Rightarrow>
          (case create_list Inflight_segments_list_field
                  (\<lambda>s. s\<lparr>inflight_segments_list := []\<rparr>) cs of
             Inl e \<Rightarrow> Inl e
           | Inr cs \<Rightarrow>
               create_list Received_segments_list_field
                 (\<lambda>s. s\<lparr>received_segments_list := []\<rparr>) cs))"

text \<open>
  \<^verbatim>\<open>state_list->prev = &state->next\<close>, when \<^verbatim>\<open>state_list\<close> is not null.
\<close>

definition set_head_prev ::
  "addr \<Rightarrow> addr option \<Rightarrow> (addr \<rightharpoonup> ctcp_state) \<Rightarrow> fault + (addr \<rightharpoonup> ctcp_state)" where
  "set_head_prev new head heap =
     (case head of
        None \<Rightarrow> Inr heap
      | Some h \<Rightarrow>
          (case heap h of
             None \<Rightarrow> Inl Invalid_pointer
           | Some hs \<Rightarrow> Inr (heap(h \<mapsto> hs\<lparr>prev := Next_of new\<rparr>))))"

text \<open>
  \<^verbatim>\<open>ctcp_init\<close>; \<open>new\<close> is the block \<^verbatim>\<open>calloc\<close> returns, \<open>None\<close> is the null
  \<^verbatim>\<open>conn_t *\<close>. The new state is linked in front of \<^verbatim>\<open>state_list\<close>, its fields are
  set, \<^verbatim>\<open>output_thread_mutex\<close> is locked and unlocked around the write of
  \<^verbatim>\<open>is_output_thread_running\<close>, and the three lists are created.
\<close>

definition ctcp_init ::
  "addr \<Rightarrow> nat option \<Rightarrow> ctcp_config \<Rightarrow> world \<Rightarrow> fault + addr option \<times> world" where
  "ctcp_init new conn' cfg w =
     (case conn' of
        None \<Rightarrow> Inr (None, w)
      | Some c \<Rightarrow>
          (let state = \<lparr>next = state_list w, prev = State_list, conn = c, config = cfg,
                 next_seq_no = INITIAL_SEQ_NO, last_ack_sent = 0, last_ack_received = 0,
                 output_thread = 0, is_output_thread_running = 0,
                 outbound_segments_list = [], inflight_segments_list = [],
                 received_segments_list = [], bytes_inflight = 0\<rparr>
           in case set_head_prev new (state_list w) ((states w)(new \<mapsto> state)) of
                Inl e \<Rightarrow> Inl e
              | Inr heap \<Rightarrow>
                  (case pthread_mutex_lock Output_thread_mutex of
                     Inl e \<Rightarrow> Inl e
                   | Inr u \<Rightarrow>
                       (case pthread_mutex_unlock Output_thread_mutex of
                          Inl e \<Rightarrow> Inl e
                        | Inr u \<Rightarrow>
                            (case initialise_lists state of
                               Inl e \<Rightarrow> Inl e
                             | Inr (calls, state) \<Rightarrow>
                                 Inr (Some new,
                                      w\<lparr>state_list := Some new,
                                        states := heap(new \<mapsto> state),
                                        trace := trace w @ map (Pair new) calls\<rparr>))))))"

text \<open>
  Modelled from the spec: \<^verbatim>\<open>end_client\<close> belongs to \<^verbatim>\<open>ctcp_sys\<close>, which is not among
  the sources, and the specification has no sentence about it. The model takes it by its
  name, as the property stated for \<^verbatim>\<open>ctcp_destroy\<close> does: it ends the client process.
  A process that has ended runs none of its functions any more.
\<close>

definition end_client :: "addr \<Rightarrow> world \<Rightarrow> world" where
  "end_client a w = w\<lparr>trace := trace w @ [(a, End_client)], client_running := False\<rparr>"

text \<open>
  \<^verbatim>\<open>ctcp_destroy\<close>: \<^verbatim>\<open>state->next->prev = state->prev\<close> when there is a next state,
  \<^verbatim>\<open>*state->prev = state->next\<close>, then \<^verbatim>\<open>conn_remove\<close>, \<^verbatim>\<open>free\<close> and
  \<^verbatim>\<open>end_client\<close>.
\<close>

definition set_next_prev :: "ctcp_state \<Rightarrow> (addr \<rightharpoonup> ctcp_state) \<Rightarrow> fault + (addr \<rightharpoonup> ctcp_state)" where
  "set_next_prev state heap =
     (case next state of
        None \<Rightarrow> Inr heap
      | Some n \<Rightarrow>
          (case heap n of
             None \<Rightarrow> Inl Invalid_pointer
           | Some ns \<Rightarrow> Inr (heap(n \<mapsto> ns\<lparr>prev := prev state\<rparr>))))"

definition store_through_prev :: "ctcp_state \<Rightarrow> world \<Rightarrow> fault + world" where
  "store_through_prev state w =
     (case prev state of
        State_list \<Rightarrow> Inr (w\<lparr>state_list := next state\<rparr>)
      | Next_of p \<Rightarrow>
          (case states w p of
             None \<Rightarrow> Inl Invalid_pointer
           | Some ps \<Rightarrow> Inr (w\<lparr>states := (states w)(p \<mapsto> ps\<lparr>next := next state\<rparr>)\<rparr>)))"

definition ctcp_destroy :: "addr \<Rightarrow> world \<Rightarrow> fault + world" where
  "ctcp_destroy a w =
     (case states w a of
        None \<Rightarrow> Inl Invalid_pointer
      | Some state \<Rightarrow>
          (case set_next_prev state (states w) of
             Inl e \<Rightarrow> Inl e
           | Inr heap \<Rightarrow>
               (case store_through_prev state (w\<lparr>states := heap\<rparr>) of
                  Inl e \<Rightarrow> Inl e
                | Inr w1 \<Rightarrow>
                    Inr (end_client a
                          (w1\<lparr>states := (states w1)(a := None),
                              trace := trace w1 @
                                [(a, Conn_remove (conn state)), (a, Free_state)]\<rparr>)))))"

text \<open>Running a function of one state on the state at an address.\<close>

definition store_state :: "addr \<Rightarrow> call list \<Rightarrow> ctcp_state \<Rightarrow> world \<Rightarrow> world" where
  "store_state a calls state w =
     w\<lparr>states := (states w)(a \<mapsto> state), trace := trace w @ map (Pair a) calls\<rparr>"


definition empty_world :: world where
  "empty_world = \<lparr>state_list = None, states = Map.empty, trace = [], client_running = True\<rparr>"




subsection \<open>Notions used to state the properties\<close>

text \<open>
  A connection state as \<^verbatim>\<open>ctcp_init\<close> is meant to leave it: the counters set, no
  thread running, three valid empty lists.
\<close>

definition fresh_state :: "addr option \<Rightarrow> nat \<Rightarrow> ctcp_config \<Rightarrow> ctcp_state" where
  "fresh_state nxt c cfg =
     \<lparr>next = nxt, prev = State_list, conn = c, config = cfg,
      next_seq_no = INITIAL_SEQ_NO, last_ack_sent = 0, last_ack_received = 0,
      output_thread = 0, is_output_thread_running = 0,
      outbound_segments_list = [], inflight_segments_list = [],
      received_segments_list = [], bytes_inflight = 0\<rparr>"

text \<open>The library hands every arriving segment to \<^verbatim>\<open>ctcp_receive\<close>, one by one.\<close>

fun receive_all :: "ctcp_state \<Rightarrow> (ctcp_segment \<times> nat) list \<Rightarrow> ctcp_state" where
  "receive_all state [] = state"
| "receive_all state ((seg, n) # rest) = receive_all (ctcp_receive state seg n) rest"


text \<open>Two states agree on the inflight list and on \<^verbatim>\<open>bytes_inflight\<close>.\<close>

definition inflight_frame :: "ctcp_state \<Rightarrow> ctcp_state \<Rightarrow> bool" where
  "inflight_frame s s' \<longleftrightarrow>
     inflight_segments_list s' = inflight_segments_list s \<and> bytes_inflight s' = bytes_inflight s"

text \<open>A queued segment carries the FIN flag (as stored, in network order).\<close>

definition is_fin :: "sys \<Rightarrow> timestamped_segment \<Rightarrow> bool" where
  "is_fin y t \<longleftrightarrow> flags (segment t) AND htonl y (FIN y) \<noteq> 0"

text \<open>The value of \<^verbatim>\<open>conn_input\<close> that ends the loop of \<^verbatim>\<open>ctcp_read\<close>.\<close>

fun last_result :: "input_step list \<Rightarrow> int" where
  "last_result [] = 0"
| "last_result (r # rs) = (if 0 < input_result r then last_result rs else input_result r)"

subsection \<open>Concrete instances\<close>

definition cfg0 :: ctcp_config where
  "cfg0 = \<lparr>recv_window = 4096, send_window = 2000\<rparr>"

definition state1 :: ctcp_state where
  "state1 = fresh_state None 7 cfg0"

text \<open>One connection, with a state as \<^verbatim>\<open>ctcp_init\<close> is meant to leave it.\<close>

definition world1 :: world where
  "world1 = \<lparr>state_list = Some 1, states = [1 \<mapsto> state1],
             trace = [(1, Ll_create), (1, Ll_create), (1, Ll_create)],
             client_running = True\<rparr>"

definition stale_ack :: ctcp_segment where
  "stale_ack = zero_segment\<lparr>len := htons spec_sys 18, flags := htonl spec_sys (ACK spec_sys)\<rparr>"



text \<open>
  Scripts for \<^verbatim>\<open>conn_input\<close>: end of input, three bytes, two bytes; in the last two
  \<^verbatim>\<open>pthread_create\<close> would succeed, and the memory behind the segment block holds
  zero bytes.
\<close>

definition eof_step :: input_step where
  "eof_step = \<lparr>input_result = - 1, input_buffer = [], behind_segment = [],
               create_result = 0, created_thread = 0\<rparr>"

definition step3 :: input_step where
  "step3 = \<lparr>input_result = 3, input_buffer = [1, 2, 3], behind_segment = [0, 0, 0],
            create_result = 0, created_thread = 5\<rparr>"

definition step2 :: input_step where
  "step2 = \<lparr>input_result = 2, input_buffer = [4, 5], behind_segment = [0, 0],
            create_result = 0, created_thread = 6\<rparr>"

text \<open>The connection of \<open>world1\<close> after \<^verbatim>\<open>ctcp_read\<close> has read three bytes.\<close>

definition running_world :: world where
  "running_world =
     (case ctcp_read spec_sys [step3] state1 of
        (calls, state) \<Rightarrow> store_state 1 calls state world1)"

text \<open>
  The state after \<^verbatim>\<open>ctcp_read\<close> has read three bytes and then two: two data segments
  queued, the older one (\<open>seg_a\<close>) at the tail, nothing in flight, a send window of 2000.
\<close>

definition seg_a :: ctcp_segment where
  "seg_a = fst (create_new_data_segment spec_sys state1 3 [1, 2, 3] [0, 0, 0])"

definition seg_b :: ctcp_segment where
  "seg_b =
     fst (create_new_data_segment spec_sys (state1\<lparr>next_seq_no := 4\<rparr>) 2 [4, 5] [0, 0])"

definition two_queued :: ctcp_state where
  "two_queued =
     state1\<lparr>next_seq_no := 6, output_thread := 5, is_output_thread_running := 1,
            outbound_segments_list :=
              [\<lparr>time_when_sent = 0, segment = seg_b\<rparr>, \<lparr>time_when_sent = 0, segment = seg_a\<rparr>]\<rparr>"


section \<open>Properties\<close>

subsection \<open>Byte order and copying\<close>

lemma bswap16_bswap16: "bswap16 (bswap16 x) = x"
  unfolding bswap16_def
  by (rule bit_word_eqI) (auto simp: bit_simps)

lemma bit_bswap32:
  "bit (bswap32 x) n \<longleftrightarrow>
     (if n < 8 then bit x (n + 24) else if n < 16 then bit x (n + 8)
      else if n < 24 then bit x (n - 8) else if n < 32 then bit x (n - 24) else False)"
proof -
  have hi: "\<not> bit x m" if "32 \<le> m" for m
    using that bit_imp_le_length [of x m] by auto
  consider "n < 8" | "8 \<le> n" "n < 16" | "16 \<le> n" "n < 24" | "24 \<le> n" "n < 32" | "32 \<le> n"
    by linarith
  then show ?thesis
  proof cases
    case 1
    then show ?thesis by (simp add: bswap32_def bit_simps add.commute)
  next
    case 2
    then have "16 + (n - 8) = n + 8" by simp
    with 2 show ?thesis by (simp add: bswap32_def bit_simps hi add.commute)
  next
    case 3
    then have "8 + (n - 16) = n - 8" by simp
    with 3 show ?thesis by (auto simp: bswap32_def bit_simps hi)
  next
    case 4
    then show ?thesis by (auto simp: bswap32_def bit_simps hi)
  next
    case 5
    then show ?thesis by (simp add: bswap32_def bit_simps hi)
  qed
qed

lemma bswap32_and: "bswap32 (a AND b) = bswap32 a AND bswap32 b"
  by (rule bit_word_eqI) (simp add: bit_bswap32 bit_simps)

lemma bswap32_bswap32: "bswap32 (bswap32 x) = x"
proof (rule bit_word_eqI)
  fix n assume "n < LENGTH(32)"
  then consider "n < 8" | "8 \<le> n" "n < 16" | "16 \<le> n" "n < 24" | "24 \<le> n" "n < 32"
    by fastforce
  then show "bit (bswap32 (bswap32 x)) n = bit x n"
    by cases (auto simp: bit_bswap32)
qed

lemma ntohs_htons: "ntohs y (htons y x) = x"
  by (simp add: ntohs_def htons_def bswap16_bswap16)

lemma htonl_and: "htonl y (a AND b) = htonl y a AND htonl y b"
  by (simp add: htonl_def bswap32_and)

lemma htonl_htonl: "htonl y (htonl y x) = x"
  by (simp add: htonl_def bswap32_bswap32)

lemma htonl_0: "htonl y 0 = 0"
  by (simp add: htonl_def bswap32_def)

lemma htonl_eq_0: "htonl y x = 0 \<longleftrightarrow> x = 0"
  using htonl_htonl [of y x] htonl_0 [of y] by auto

lemma array_copy_from_length: "length (array_copy_from i k to from) = length to"
  by (induction i k to "from" rule: array_copy_from.induct) simp_all

lemma array_copy_from_nth:
  "j < length to \<Longrightarrow>
   array_copy_from i k to from ! j = (if i \<le> j \<and> j < i + k then from ! j else to ! j)"
proof (induction i k to "from" rule: array_copy_from.induct)
  case (1 i to "from")
  then show ?case by auto
next
  case (2 i k to "from")
  show ?case
  proof (cases "j = i")
    case True
    with 2 show ?thesis by (simp add: nth_list_update)
  next
    case False
    with 2 show ?thesis by (auto simp: nth_list_update)
  qed
qed

lemma array_copy_take:
  "nat n \<le> length from \<Longrightarrow> array_copy (malloc_bytes n) from n = take (nat n) from"
  by (rule nth_equalityI)
    (simp_all add: array_copy_def malloc_bytes_def array_copy_from_length array_copy_from_nth)

subsection \<open>What the segment builders leave in the state\<close>

lemma create_new_data_segment_state:
  "snd (create_new_data_segment y s n b m) = s\<lparr>next_seq_no := next_seq_no s + word_of_int n\<rparr>"
  by (simp add: create_new_data_segment_def Let_def)

lemma create_new_data_segment_flags:
  "flags (fst (create_new_data_segment y s n b m)) = htonl y (ACK y)"
  by (simp add: create_new_data_segment_def Let_def zero_segment_def)

lemma create_new_fin_segment_state: "snd (create_new_fin_segment y s) = s"
  by (simp add: create_new_fin_segment_def Let_def)

lemma create_new_fin_segment_flags:
  "flags (fst (create_new_fin_segment y s)) = htonl y (ACK y) OR htonl y (FIN y)"
  by (simp add: create_new_fin_segment_def Let_def zero_segment_def)

lemma create_new_data_segment_cases:
  obtains seg where
    "create_new_data_segment y s n b m =
       (seg, s\<lparr>next_seq_no := next_seq_no s + word_of_int n\<rparr>)"
  using create_new_data_segment_state [of y s n b m]
  by (cases "create_new_data_segment y s n b m") simp

lemma create_new_data_segment_segment:
  "fst (create_new_data_segment y s n b m) =
     \<lparr>seqno = htonl y (next_seq_no s), ackno = htonl y (last_ack_sent s),
      len = htons y (word_of_int (int (seg_hdr_size y) + n)), flags = htonl y (ACK y),
      window = htons y (recv_window (config s)),
      cksum = cksum_call y
        \<lparr>seqno = htonl y (next_seq_no s), ackno = htonl y (last_ack_sent s),
         len = htons y (word_of_int (int (seg_hdr_size y) + n)), flags = htonl y (ACK y),
         window = htons y (recv_window (config s)), cksum = 0, data = []\<rparr>
        m (word_of_int (int (seg_hdr_size y) + n)),
      data = array_copy (malloc_bytes n) b n\<rparr>"
  by (simp add: create_new_data_segment_def Let_def zero_segment_def ntohs_htons block_of_def)

lemma state1_fields:
  "is_output_thread_running state1 = 0" "next_seq_no state1 = 1"
  "outbound_segments_list state1 = []" "inflight_segments_list state1 = []"
  "bytes_inflight state1 = 0" "last_ack_received state1 = 0" "config state1 = cfg0"
  "conn state1 = 7" "next state1 = None" "prev state1 = State_list"
  by (simp_all add: state1_def fresh_state_def INITIAL_SEQ_NO_def)

lemma spec_sys_flags: "ACK spec_sys AND FIN spec_sys = 0" "FIN spec_sys \<noteq> 0"
  by (simp_all add: spec_sys_def)

lemma or_and_right: "(a OR b) AND b = (b :: 32 word)"
  by (rule bit_word_eqI) (auto simp: bit_simps)

lemma or_and_left: "(a OR b) AND a = (a :: 32 word)"
  by (rule bit_word_eqI) (auto simp: bit_simps)

subsection \<open>What reading and sending leave of the inflight list\<close>

lemma read_loop_inflight:
  "read_loop y rs f calls s = (r, calls', s') \<Longrightarrow> inflight_frame s s'"
proof (induction rs arbitrary: f calls s)
  case Nil
  then show ?case by (simp add: inflight_frame_def)
next
  case (Cons x rs)
  obtain seg s1 where
    c: "create_new_data_segment y s (input_result x) (input_buffer x) (behind_segment x) =
          (seg, s1)"
    by (cases "create_new_data_segment y s (input_result x) (input_buffer x) (behind_segment x)")
  then have s1: "s1 = s\<lparr>next_seq_no := next_seq_no s + word_of_int (input_result x)\<rparr>"
    using create_new_data_segment_state
      [of y s "input_result x" "input_buffer x" "behind_segment x"]
    by simp
  show ?case
  proof (cases "0 < input_result x")
    case False
    with Cons.prems show ?thesis by (simp add: inflight_frame_def)
  next
    case True
    with Cons.prems c obtain f' calls'' s2 where
      rec: "read_loop y rs f' calls'' s2 = (r, calls', s')" and "inflight_frame s1 s2"
      by (auto simp: Let_def inflight_frame_def split: if_splits)
    with Cons.IH [OF rec] s1 show ?thesis by (simp add: inflight_frame_def)
  qed
qed

lemma ctcp_read_inflight: "ctcp_read y rs s = (calls, s') \<Longrightarrow> inflight_frame s s'"
  by (auto simp: ctcp_read_def Let_def inflight_frame_def create_new_fin_segment_def
      split: prod.splits if_splits dest!: read_loop_inflight)

lemma stop_and_wait_check_state:
  "stop_and_wait_check s = Inr (calls, s') \<Longrightarrow> calls = [] \<and> s' = s"
  by (auto simp: stop_and_wait_check_def split: list.splits if_splits)

lemma send_outbound_tail_segments_inflight:
  "send_outbound_tail_segments s = Inr (calls, s') \<Longrightarrow> inflight_frame s s'"
  by (auto simp: send_outbound_tail_segments_def Let_def inflight_frame_def
      split: if_splits list.splits dest!: stop_and_wait_check_state)

lemma ctcp_read_step3:
  "ctcp_read spec_sys [step3] state1 =
     ([Pthread_create 0],
      state1\<lparr>next_seq_no := 4, output_thread := 5, is_output_thread_running := 1,
             outbound_segments_list :=
               [\<lparr>time_when_sent = 0,
                 segment =
                   fst (create_new_data_segment spec_sys state1 3 [1, 2, 3] [0, 0, 0])\<rparr>]\<rparr>)"
proof -
  obtain seg where
    c: "create_new_data_segment spec_sys state1 3 [1, 2, 3] [0, 0, 0] =
          (seg, state1\<lparr>next_seq_no := next_seq_no state1 + word_of_int 3\<rparr>)"
    by (rule create_new_data_segment_cases)
  show ?thesis
    by (simp add: ctcp_read_def step3_def Let_def c state1_fields)
qed

lemma running_world_eq:
  "running_world =
     \<lparr>state_list = Some 1,
      states = [1 \<mapsto> snd (ctcp_read spec_sys [step3] state1)],
      trace = [(1, Ll_create), (1, Ll_create), (1, Ll_create), (1, Pthread_create 0)],
      client_running = True\<rparr>"
  by (simp add: running_world_def ctcp_read_step3 store_state_def world1_def)

subsection \<open>Data segments\<close>

lemma create_new_data_segment_header_fields:
  assumes "0 < bytes_read" and "nat bytes_read \<le> length buffer"
  shows "case create_new_data_segment y state bytes_read buffer behind of
           (seg, state') \<Rightarrow>
             seqno seg = htonl y (next_seq_no state) \<and>
             state' = state\<lparr>next_seq_no := next_seq_no state + word_of_int bytes_read\<rparr> \<and>
             ackno seg = htonl y (last_ack_sent state) \<and>
             flags seg = htonl y (ACK y) \<and>
             window seg = htons y (recv_window (config state)) \<and>
             ntohs y (len seg) = word_of_int (int (seg_hdr_size y) + bytes_read) \<and>
             data seg = take (nat bytes_read) buffer \<and> length (data seg) = nat bytes_read"
  using assms
  by (simp add: create_new_data_segment_def Let_def zero_segment_def ntohs_htons array_copy_take)

lemma create_new_data_segment_cksum:
  "cksum (fst (create_new_data_segment y state bytes_read buffer behind)) =
     cksum_of y
       ((fst (create_new_data_segment y state bytes_read buffer behind))\<lparr>cksum := 0, data := []\<rparr>)
       (take (unat (word_of_int (int (seg_hdr_size y) + bytes_read) :: 16 word) - seg_hdr_size y)
          behind)
       (word_of_int (int (seg_hdr_size y) + bytes_read))"
  by (simp add: create_new_data_segment_segment cksum_call_def)

text \<open>
  C4, on the fresh state of connection 7 with three bytes read and three zero bytes
  behind the segment block. The header fields and the payload of the new segment are as
  claimed, and \<^verbatim>\<open>next_seq_no\<close> advances by three. The checksum is not: \<^verbatim>\<open>cksum\<close> is
  called on the header block with the length of header and payload, so it covers the
  header and the three bytes behind the block, while the payload lies in another block.
  The stored checksum is the same for the payloads 1, 2, 3 and 9, 9, 9, it changes with
  the bytes behind the block, and it is not the checksum of header and payload.
\<close>

theorem create_new_data_segment_cksum_misses_payload:
  "data (fst (create_new_data_segment spec_sys state1 3 [1, 2, 3] [0, 0, 0])) = [1, 2, 3] \<and>
   data (fst (create_new_data_segment spec_sys state1 3 [9, 9, 9] [0, 0, 0])) = [9, 9, 9] \<and>
   cksum (fst (create_new_data_segment spec_sys state1 3 [1, 2, 3] [0, 0, 0])) =
     cksum (fst (create_new_data_segment spec_sys state1 3 [9, 9, 9] [0, 0, 0])) \<and>
   cksum (fst (create_new_data_segment spec_sys state1 3 [1, 2, 3] [0, 0, 0])) \<noteq>
     cksum (fst (create_new_data_segment spec_sys state1 3 [1, 2, 3] [7, 7, 7])) \<and>
   cksum (fst (create_new_data_segment spec_sys state1 3 [1, 2, 3] [0, 0, 0])) \<noteq>
     cksum_of spec_sys
       ((fst (create_new_data_segment spec_sys state1 3 [1, 2, 3] [0, 0, 0]))
          \<lparr>cksum := 0, data := []\<rparr>)
       [1, 2, 3] 21 \<and>
   seqno (fst (create_new_data_segment spec_sys state1 3 [1, 2, 3] [0, 0, 0])) =
     htonl spec_sys 1 \<and>
   ntohs spec_sys (len (fst (create_new_data_segment spec_sys state1 3 [1, 2, 3] [0, 0, 0]))) =
     21 \<and>
   next_seq_no (snd (create_new_data_segment spec_sys state1 3 [1, 2, 3] [0, 0, 0])) = 4"
  by (simp add: create_new_data_segment_segment create_new_data_segment_state cksum_call_def
      array_copy_take ntohs_htons state1_fields spec_sys_def sum_cksum_def)

subsection \<open>Receiving\<close>

lemma receive_all_id: "receive_all state arrivals = state"
  by (induction arrivals arbitrary: state) (auto simp: ctcp_receive_def)

text \<open>
  C5. Over any sequence of arrivals handed to \<^verbatim>\<open>ctcp_receive\<close>, neither
  \<^verbatim>\<open>last_ack_received\<close> nor \<^verbatim>\<open>last_ack_sent\<close> decreases, and a segment with the ACK
  flag, no payload and an ackno not above \<^verbatim>\<open>last_ack_received\<close> leaves the state as it
  was.
\<close>

theorem ctcp_receive_never_moves_back:
  "sint (last_ack_received state) \<le> sint (last_ack_received (receive_all state arrivals)) \<and>
   sint (last_ack_sent state) \<le> sint (last_ack_sent (receive_all state arrivals)) \<and>
   (data seg = [] \<and> flags seg AND htonl y (ACK y) \<noteq> 0 \<and>
    sint (htonl y (ackno seg)) \<le> sint (last_ack_received state)
      \<longrightarrow> ctcp_receive state seg n = state)"
  by (simp add: receive_all_id ctcp_receive_def)

theorem ctcp_receive_never_moves_back_witness:
  "data stale_ack = [] \<and> flags stale_ack AND htonl spec_sys (ACK spec_sys) \<noteq> 0 \<and>
   sint (htonl spec_sys (ackno stale_ack)) \<le> sint (last_ack_received state1) \<and>
   ctcp_receive state1 stale_ack 18 = state1 \<and>
   sint (last_ack_received state1)
     \<le> sint (last_ack_received (receive_all state1 [(stale_ack, 18), (stale_ack, 18)])) \<and>
   sint (last_ack_sent state1)
     \<le> sint (last_ack_sent (receive_all state1 [(stale_ack, 18), (stale_ack, 18)]))"
proof -
  have "ACK spec_sys \<noteq> 0" by (simp add: spec_sys_def)
  then have a: "flags stale_ack AND htonl spec_sys (ACK spec_sys) \<noteq> 0"
    by (simp add: stale_ack_def htonl_eq_0)
  have b: "data stale_ack = []" by (simp add: stale_ack_def zero_segment_def)
  have c: "sint (htonl spec_sys (ackno stale_ack)) \<le> sint (last_ack_received state1)"
    by (simp add: stale_ack_def zero_segment_def htonl_0 state1_def fresh_state_def)
  from a b c
    ctcp_receive_never_moves_back
      [of state1 "[(stale_ack, 18), (stale_ack, 18)]" stale_ack spec_sys 18]
  show ?thesis by simp
qed

subsection \<open>Creating a connection\<close>

lemma initialise_lists_fault: "initialise_lists state = Inl Not_a_mutex"
  by (simp add: initialise_lists_def create_list_def pthread_mutex_lock_def)

lemma ctcp_init_fault:
  "ctcp_init new (Some c) cfg w =
     (case state_list w of
        None \<Rightarrow> Inl Not_a_mutex
      | Some h \<Rightarrow> if h = new \<or> states w h \<noteq> None then Inl Not_a_mutex else Inl Invalid_pointer)"
  by (auto simp: ctcp_init_def Let_def set_head_prev_def initialise_lists_fault
      pthread_mutex_lock_def pthread_mutex_unlock_def split: option.splits)

text \<open>
  C7, for connection 7 as the first connection of the process. \<^verbatim>\<open>ctcp_init\<close> links
  the new state and sets its counters, and then, to create the outbound list, locks
  \<^verbatim>\<open>&(state->outbound_segments_list)\<close>, the list-pointer field itself, where
  \<^verbatim>\<open>ctcp_read\<close> locks the mutex \<^verbatim>\<open>outbound_list_lock\<close>. The field is not a mutex, so
  the call has no defined outcome and \<^verbatim>\<open>ctcp_init\<close> does not return a state with three
  empty lists; locking the mutex would have been fine.
\<close>

theorem ctcp_init_locks_list_fields:
  "ctcp_init 1 (Some 7) cfg0 empty_world = Inl Not_a_mutex \<and>
   pthread_mutex_lock Outbound_segments_list_field = Inl Not_a_mutex \<and>
   pthread_mutex_lock Outbound_list_lock = Inr ()"
  by (simp add: ctcp_init_fault empty_world_def pthread_mutex_lock_def)

text \<open>
  C8. For the null connection handle \<^verbatim>\<open>ctcp_init\<close> returns null; no state is
  allocated, and the list of active states and everything else stay as they were.
\<close>

theorem ctcp_init_null: "ctcp_init new None cfg w = Inr (None, w)"
  by (simp add: ctcp_init_def)

subsection \<open>FIN segments and the end of input\<close>

lemma read_loop_result: "fst (read_loop y rs f calls s) = last_result rs"
  by (induction rs arbitrary: f calls s) (auto simp: Let_def split: prod.splits)

lemma is_fin_data:
  "ACK y AND FIN y = 0 \<Longrightarrow>
   \<not> is_fin y \<lparr>time_when_sent = t, segment = fst (create_new_data_segment y s n b m)\<rparr>"
  using htonl_and [of y "ACK y" "FIN y"]
  by (simp add: is_fin_def create_new_data_segment_flags htonl_0)

lemma is_fin_fin:
  "FIN y \<noteq> 0 \<Longrightarrow> is_fin y \<lparr>time_when_sent = t, segment = fst (create_new_fin_segment y s)\<rparr>"
  by (simp add: is_fin_def create_new_fin_segment_flags or_and_right htonl_eq_0)

lemma read_loop_fins:
  assumes "ACK y AND FIN y = 0"
  shows "filter (is_fin y) (outbound_segments_list (snd (snd (read_loop y rs f calls s)))) =
         filter (is_fin y) (outbound_segments_list s)"
proof (induction rs arbitrary: f calls s)
  case Nil
  then show ?case by simp
next
  case (Cons x rs)
  obtain seg s1 where
    c: "create_new_data_segment y s (input_result x) (input_buffer x) (behind_segment x) =
          (seg, s1)"
    by (cases "create_new_data_segment y s (input_result x) (input_buffer x) (behind_segment x)")
  then have s1: "outbound_segments_list s1 = outbound_segments_list s"
    using create_new_data_segment_state
      [of y s "input_result x" "input_buffer x" "behind_segment x"]
    by simp
  from c have "\<not> is_fin y \<lparr>time_when_sent = 0, segment = seg\<rparr>"
    using is_fin_data [OF assms, of 0 s "input_result x" "input_buffer x" "behind_segment x"]
    by simp
  with c s1 show ?case
    by (simp add: Let_def Cons.IH)
qed

lemma ctcp_read_fin_count:
  assumes "ACK y AND FIN y = 0" and "FIN y \<noteq> 0"
  shows "length (filter (is_fin y) (outbound_segments_list (snd (ctcp_read y script state)))) =
           length (filter (is_fin y) (outbound_segments_list state)) +
           (if last_result script = - 1 then 1 else 0)"
proof -
  obtain r calls s1 where l: "read_loop y script 1 [] state = (r, calls, s1)"
    by (cases "read_loop y script 1 [] state")
  have r: "r = last_result script"
    using read_loop_result [of y script 1 "[]" state] l by simp
  have f: "filter (is_fin y) (outbound_segments_list s1) =
           filter (is_fin y) (outbound_segments_list state)"
    using read_loop_fins [OF assms(1), of script 1 "[]" state] l by simp
  obtain seg s2 where c: "create_new_fin_segment y s1 = (seg, s2)"
    by (cases "create_new_fin_segment y s1")
  then have s2: "s2 = s1"
    using create_new_fin_segment_state [of y s1] by simp
  have fin: "is_fin y \<lparr>time_when_sent = 0, segment = seg\<rparr>"
    using is_fin_fin [OF assms(2), of 0 s1] c by simp
  show ?thesis
    using l r f fin c s2 by (simp add: ctcp_read_def)
qed

text \<open>
  C3, as the code has it. With ACK and FIN distinct flag bits, \<^verbatim>\<open>create_new_fin_segment\<close>
  returns a segment with no payload, the length of the bare header, both the ACK and the
  FIN flag, and the current \<^verbatim>\<open>next_seq_no\<close> as seqno; it leaves \<^verbatim>\<open>next_seq_no\<close> and
  the rest of the state as they were. \<^verbatim>\<open>ctcp_read\<close> queues one FIN segment in every call
  whose input ends with \<^verbatim>\<open>conn_input\<close> returning -1, and none in any other call.
\<close>

theorem create_new_fin_segment_fields:
  assumes "ACK y AND FIN y = 0" and "FIN y \<noteq> 0"
  shows "(case create_new_fin_segment y state of
            (seg, state') \<Rightarrow>
              data seg = [] \<and> ntohs y (len seg) = word_of_nat (seg_hdr_size y) \<and>
              flags seg AND htonl y (ACK y) = htonl y (ACK y) \<and>
              flags seg AND htonl y (FIN y) = htonl y (FIN y) \<and>
              seqno seg = htonl y (next_seq_no state) \<and> state' = state) \<and>
         length (filter (is_fin y) (outbound_segments_list (snd (ctcp_read y script state)))) =
           length (filter (is_fin y) (outbound_segments_list state)) +
           (if last_result script = - 1 then 1 else 0)"
  using ctcp_read_fin_count [OF assms, of script state]
  by (simp add: create_new_fin_segment_def Let_def zero_segment_def ntohs_htons
      or_and_left or_and_right)

theorem create_new_fin_segment_fields_witness:
  "ACK spec_sys AND FIN spec_sys = 0 \<and> FIN spec_sys \<noteq> 0 \<and>
   (case create_new_fin_segment spec_sys state1 of
      (seg, state') \<Rightarrow>
        data seg = [] \<and> ntohs spec_sys (len seg) = word_of_nat (seg_hdr_size spec_sys) \<and>
        flags seg AND htonl spec_sys (ACK spec_sys) = htonl spec_sys (ACK spec_sys) \<and>
        flags seg AND htonl spec_sys (FIN spec_sys) = htonl spec_sys (FIN spec_sys) \<and>
        seqno seg = htonl spec_sys (next_seq_no state1) \<and> state' = state1) \<and>
   length (filter (is_fin spec_sys)
     (outbound_segments_list (snd (ctcp_read spec_sys [step3, eof_step] state1)))) =
     length (filter (is_fin spec_sys) (outbound_segments_list state1)) +
     (if last_result [step3, eof_step] = - 1 then 1 else 0)"
  using create_new_fin_segment_fields [OF spec_sys_flags, of state1 "[step3, eof_step]"]
    spec_sys_flags
  by simp

text \<open>
  C3, as the claim has it, fails twice on the fresh state of connection 7: creating the
  FIN segment does not advance \<^verbatim>\<open>next_seq_no\<close>, and two calls of \<^verbatim>\<open>ctcp_read\<close> at
  the end of input leave two FIN segments in the outbound list.
\<close>

theorem fin_keeps_next_seq_no_and_repeats:
  "next_seq_no (snd (create_new_fin_segment spec_sys state1)) \<noteq> next_seq_no state1 + 1 \<and>
   length (filter (is_fin spec_sys)
     (outbound_segments_list
        (snd (ctcp_read spec_sys [eof_step] (snd (ctcp_read spec_sys [eof_step] state1)))))) = 2"
proof -
  have n: "length (filter (is_fin spec_sys)
                (outbound_segments_list (snd (ctcp_read spec_sys [eof_step] s)))) =
        length (filter (is_fin spec_sys) (outbound_segments_list s)) + 1" for s
    using ctcp_read_fin_count [OF spec_sys_flags, of "[eof_step]" s]
    by (simp add: eof_step_def)
  have "outbound_segments_list state1 = []" by (simp add: state1_def fresh_state_def)
  with n [of state1] n [of "snd (ctcp_read spec_sys [eof_step] state1)"]
  show ?thesis by (simp add: create_new_fin_segment_state)
qed





subsection \<open>Destroying a connection\<close>




text \<open>
  C6, at a connection whose sending thread was started by \<^verbatim>\<open>ctcp_read\<close> and whose
  outbound list holds a segment: \<^verbatim>\<open>ctcp_destroy\<close> unlinks and frees the state and calls
  \<^verbatim>\<open>conn_remove\<close> and \<^verbatim>\<open>end_client\<close>, and that is all. The complete log of the
  connection has the three \<^verbatim>\<open>ll_create\<close> and the \<^verbatim>\<open>pthread_create\<close>, with no call
  after them that would stop the thread or release a list.
\<close>

theorem ctcp_destroy_leaves_thread_and_lists:
  "(\<exists>state. states running_world 1 = Some state \<and> is_output_thread_running state = 1 \<and>
      length (outbound_segments_list state) = 1) \<and>
   (\<exists>w'. ctcp_destroy 1 running_world = Inr w' \<and> state_list w' = None \<and> states w' 1 = None \<and>
      trace w' = [(1, Ll_create), (1, Ll_create), (1, Ll_create), (1, Pthread_create 0),
                  (1, Conn_remove 7), (1, Free_state), (1, End_client)])"
proof -
  have s: "snd (ctcp_read spec_sys [step3] state1) =
      state1\<lparr>next_seq_no := 4, output_thread := 5, is_output_thread_running := 1,
             outbound_segments_list :=
               [\<lparr>time_when_sent = 0,
                 segment =
                   fst (create_new_data_segment spec_sys state1 3 [1, 2, 3] [0, 0, 0])\<rparr>]\<rparr>"
    by (simp add: ctcp_read_step3)
  show ?thesis
    unfolding running_world_eq s
    by (simp add: ctcp_destroy_def set_next_prev_def store_through_prev_def state1_fields
        end_client_def)
qed

subsection \<open>The sending task\<close>

lemma ctcp_read_two_steps: "snd (ctcp_read spec_sys [step3, step2] state1) = two_queued"
proof -
  obtain sa where
    a: "create_new_data_segment spec_sys state1 3 [1, 2, 3] [0, 0, 0] =
          (sa, state1\<lparr>next_seq_no := next_seq_no state1 + word_of_int 3\<rparr>)"
    by (rule create_new_data_segment_cases)
  then have sa: "sa = seg_a" by (simp add: seg_a_def)
  let ?s = "state1\<lparr>next_seq_no := 4,
                  outbound_segments_list := [\<lparr>time_when_sent = 0, segment = seg_a\<rparr>],
                  output_thread := 5, is_output_thread_running := 1\<rparr>"
  obtain sb where
    b: "create_new_data_segment spec_sys ?s 2 [4, 5] [0, 0] =
          (sb, ?s\<lparr>next_seq_no := next_seq_no ?s + word_of_int 2\<rparr>)"
    by (rule create_new_data_segment_cases)
  have "fst (create_new_data_segment spec_sys ?s 2 [4, 5] [0, 0]) = seg_b"
    unfolding seg_b_def create_new_data_segment_segment by simp
  with b have sb: "sb = seg_b" by simp
  show ?thesis
    using a b unfolding sa sb
    by (simp add: ctcp_read_def step3_def step2_def Let_def state1_fields two_queued_def)
qed

lemma send_outbound_tail_segments_empty:
  "outbound_segments_list state = [] \<Longrightarrow>
   send_outbound_tail_segments state =
     (if sint (bytes_inflight state) < sint (send_window (config state))
      then Inr ([Thread_exit 0], state) else Inl Null_dereference)"
  by (simp add: send_outbound_tail_segments_def stop_and_wait_check_def)

text \<open>
  C2, at the state \<^verbatim>\<open>ctcp_read\<close> leaves after reading three bytes and then two. The
  window is open and two segments are queued. \<^verbatim>\<open>send_outbound_tail_segments\<close> takes
  the older segment off the tail of the outbound list and returns: the inflight list is
  still empty, \<^verbatim>\<open>bytes_inflight\<close> is still zero, no send time was written, and no call
  was made that would hand the segment to the network.
\<close>

theorem send_outbound_tail_segments_loses_tail:
  "snd (ctcp_read spec_sys [step3, step2] state1) = two_queued \<and>
   sint (bytes_inflight two_queued) < sint (send_window (config two_queued)) \<and>
   data seg_a = [1, 2, 3] \<and> data seg_b = [4, 5] \<and>
   send_outbound_tail_segments two_queued =
     Inr ([], two_queued\<lparr>outbound_segments_list := [\<lparr>time_when_sent = 0, segment = seg_b\<rparr>]\<rparr>) \<and>
   inflight_segments_list two_queued = [] \<and> bytes_inflight two_queued = 0"
proof -
  have d: "data seg_a = [1, 2, 3]" "data seg_b = [4, 5]"
    by (simp_all add: seg_a_def seg_b_def create_new_data_segment_segment array_copy_take)
  have w: "sint (bytes_inflight two_queued) < sint (send_window (config two_queued))"
    by (simp add: two_queued_def state1_fields cfg0_def)
  have s: "send_outbound_tail_segments two_queued =
     Inr ([], two_queued\<lparr>outbound_segments_list := [\<lparr>time_when_sent = 0, segment = seg_b\<rparr>]\<rparr>)"
    using w
    by (simp add: send_outbound_tail_segments_def stop_and_wait_check_def Let_def
        two_queued_def)
  from d w s ctcp_read_two_steps show ?thesis
    by (simp add: two_queued_def state1_fields)
qed


end
